theory Spec2Isabelle
  imports Complex_Main
begin

section \<open>The timeline editor of \<^verbatim>\<open>src/src/main.tsx\<close> (component \<^verbatim>\<open>VideoEditor\<close>)\<close>

text \<open>
  The component keeps its data in React state cells (\<^verbatim>\<open>useState\<close>) and in mutable refs
  (\<^verbatim>\<open>useRef\<close>). The model is explicit state passing: one record holds every cell and ref,
  and every handler of the source is a function from the state before the event to the
  state after it. Handlers run one event at a time, so a functional updater
  \<^verbatim>\<open>setVideoSegments(prev => ...)\<close> sees the store of the state the handler started from;
  the gesture refs that an updater reads are those of the event that queued it.

  Numbers: a JavaScript \<^verbatim>\<open>number\<close> is an IEEE double, and every arithmetic operation on
  numbers rounds its result to a double. The handlers are first written with exact
  arithmetic on \<^typ>\<open>real\<close>. For the resize, where a claim depends on the rounding, the same
  lines are written a second time with the rounding of every operation as a parameter
  (\<open>resizeSegment_fl\<close>, \<open>onResize_fl\<close>); \<open>roundToDouble\<close> is the rounding of the code.
  \<^verbatim>\<open>NaN\<close> is outside the model; the one infinite value the source uses,
  \<^verbatim>\<open>asset?.duration ?? Infinity\<close>, is written out as the \<open>None\<close> of an option.

  \<^verbatim>\<open>createId()\<close> draws on \<^verbatim>\<open>Math.random\<close> and the clock; the model takes its results as an
  input of the handler that calls it.
\<close>

subsection \<open>Data model (lines 23-58)\<close>

type_synonym Id = string

text \<open>\<^verbatim>\<open>VideoAsset\<close> and \<^verbatim>\<open>AudioAsset\<close> are the same structural type, and so are
  \<^verbatim>\<open>VideoSegment\<close> and \<^verbatim>\<open>AudioSegment\<close>. An absent \<^verbatim>\<open>duration?\<close> is \<open>None\<close>.\<close>

record Asset =
  id :: Id
  name :: string
  url :: string
  duration :: "real option"

text \<open>A \<^verbatim>\<open>Partial<VideoSegment>\<close>: an absent field is \<open>None\<close>.\<close>

record SegmentPatch =
  id :: "Id option"
  assetId :: "Id option"
  sourceStart :: "real option"
  duration :: "real option"
  timelineStart :: "real option"

record Segment =
  id :: Id
  assetId :: Id
  sourceStart :: real
  duration :: real
  timelineStart :: real

definition PIXELS_PER_SECOND :: real where
  "PIXELS_PER_SECOND = 80"

record MouseEvent =
  clientX :: real

text \<open>The two gesture refs (lines 463-475).\<close>

record DragState =
  id :: "Id option"
  initialX :: real
  initialOffset :: real

datatype Edge = Left | Right

record ResizeState =
  id :: "Id option"
  edge :: Edge
  initialX :: real
  initialSourceStart :: real
  initialDuration :: real

text \<open>What the handlers use of an \<^verbatim>\<open>HTMLMediaElement\<close>.\<close>

record MediaElement =
  currentTime :: real
  paused :: bool

record EditorState =
  videoAssets :: "Asset list"
  audioAssets :: "Asset list"
  videoSegments :: "Segment list"
  audioSegments :: "Segment list"
  isPlaying :: bool
  selectedVideoSegmentId :: "Id option"
  selectedAudioSegmentId :: "Id option"
  videoRef :: "MediaElement option"
  audioRef :: "MediaElement option"
  isAudioPlaying :: bool
  dragState :: "DragState option"
  resizeState :: "ResizeState option"

text \<open>The state of the first render: the initial values of lines 81-96 and 463-475.\<close>

definition initialState :: EditorState where
  "initialState =
     \<lparr>videoAssets = [], audioAssets = [], videoSegments = [], audioSegments = [],
      isPlaying = False, selectedVideoSegmentId = None, selectedAudioSegmentId = None,
      videoRef = None, audioRef = None, isAudioPlaying = False,
      dragState = None, resizeState = None\<rparr>"

text \<open>The values every render derives from the state (lines 98-106).\<close>

definition selectedVideoSegment :: "EditorState \<Rightarrow> Segment option" where
  "selectedVideoSegment st =
     find (\<lambda>s. Some (Segment.id s) = selectedVideoSegmentId st) (videoSegments st)"

definition selectedAudioSegment :: "EditorState \<Rightarrow> Segment option" where
  "selectedAudioSegment st =
     find (\<lambda>s. Some (Segment.id s) = selectedAudioSegmentId st) (audioSegments st)"

definition selectedVideoAsset :: "EditorState \<Rightarrow> Asset option" where
  "selectedVideoAsset st =
     (case selectedVideoSegment st of
        None \<Rightarrow> None
      | Some seg \<Rightarrow> find (\<lambda>a. Asset.id a = assetId seg) (videoAssets st))"

definition selectedAudioAsset :: "EditorState \<Rightarrow> Asset option" where
  "selectedAudioAsset st =
     (case selectedAudioSegment st of
        None \<Rightarrow> None
      | Some seg \<Rightarrow> find (\<lambda>a. Asset.id a = assetId seg) (audioAssets st))"

subsection \<open>Adding and deleting segments (lines 135-149, 218-229, 452-460)\<close>

definition addVideoToTimeline :: "Id \<Rightarrow> Asset \<Rightarrow> EditorState \<Rightarrow> EditorState" where
  "addVideoToTimeline newId asset st =
     (let defaultDuration = (case Asset.duration asset of None \<Rightarrow> 10 | Some d \<Rightarrow> d);
          segment = \<lparr>Segment.id = newId, assetId = Asset.id asset, sourceStart = 0,
                     duration = defaultDuration, timelineStart = 0\<rparr>
      in st\<lparr>videoSegments := videoSegments st @ [segment],
            selectedVideoSegmentId := Some newId\<rparr>)"

definition addAudioToTimeline :: "Id \<Rightarrow> Asset \<Rightarrow> EditorState \<Rightarrow> EditorState" where
  "addAudioToTimeline newId asset st =
     (let defaultDuration = (case Asset.duration asset of None \<Rightarrow> 10 | Some d \<Rightarrow> d);
          segment = \<lparr>Segment.id = newId, assetId = Asset.id asset, sourceStart = 0,
                     duration = defaultDuration, timelineStart = 0\<rparr>
      in st\<lparr>audioSegments := audioSegments st @ [segment],
            selectedAudioSegmentId := Some (Segment.id segment)\<rparr>)"

definition deleteVideoSegment :: "Id \<Rightarrow> EditorState \<Rightarrow> EditorState" where
  "deleteVideoSegment i st =
     (let st1 = st\<lparr>videoSegments := filter (\<lambda>s. Segment.id s \<noteq> i) (videoSegments st)\<rparr>
      in if selectedVideoSegmentId st = Some i
         then st1\<lparr>selectedVideoSegmentId := None\<rparr> else st1)"

definition deleteAudioSegment :: "Id \<Rightarrow> EditorState \<Rightarrow> EditorState" where
  "deleteAudioSegment i st =
     (let st1 = st\<lparr>audioSegments := filter (\<lambda>s. Segment.id s \<noteq> i) (audioSegments st)\<rparr>
      in if selectedAudioSegmentId st = Some i
         then st1\<lparr>selectedAudioSegmentId := None\<rparr> else st1)"

text \<open>The spread \<^verbatim>\<open>{ ...s, ...patch }\<close> and the two update helpers (lines 444-450).\<close>

definition applyPatch :: "SegmentPatch \<Rightarrow> Segment \<Rightarrow> Segment" where
  "applyPatch patch s =
     \<lparr>Segment.id = (case SegmentPatch.id patch of None \<Rightarrow> Segment.id s | Some v \<Rightarrow> v),
      assetId = (case SegmentPatch.assetId patch of None \<Rightarrow> assetId s | Some v \<Rightarrow> v),
      sourceStart = (case SegmentPatch.sourceStart patch of None \<Rightarrow> sourceStart s | Some v \<Rightarrow> v),
      duration = (case SegmentPatch.duration patch of None \<Rightarrow> Segment.duration s | Some v \<Rightarrow> v),
      timelineStart =
        (case SegmentPatch.timelineStart patch of None \<Rightarrow> timelineStart s | Some v \<Rightarrow> v)\<rparr>"

definition updateVideoSegment :: "Id \<Rightarrow> SegmentPatch \<Rightarrow> EditorState \<Rightarrow> EditorState" where
  "updateVideoSegment i patch st =
     st\<lparr>videoSegments :=
          map (\<lambda>s. if Segment.id s = i then applyPatch patch s else s) (videoSegments st)\<rparr>"

definition updateAudioSegment :: "Id \<Rightarrow> SegmentPatch \<Rightarrow> EditorState \<Rightarrow> EditorState" where
  "updateAudioSegment i patch st =
     st\<lparr>audioSegments :=
          map (\<lambda>s. if Segment.id s = i then applyPatch patch s else s) (audioSegments st)\<rparr>"

subsection \<open>Drag and resize (lines 477-582, 795-838, 933-976)\<close>

definition onSegmentMouseDown :: "MouseEvent \<Rightarrow> Id \<Rightarrow> real \<Rightarrow> EditorState \<Rightarrow> EditorState" where
  "onSegmentMouseDown e segmentId initialTimelineStart st =
     st\<lparr>dragState := Some \<lparr>DragState.id = Some segmentId, initialX = clientX e,
                           initialOffset = initialTimelineStart\<rparr>\<rparr>"

text \<open>The \<^verbatim>\<open>onMouseDown\<close> of a resize handle of segment \<open>seg\<close> (lines 796-805, 819-828,
  934-943, 957-966). It stops the propagation, so the drag ref is not written.\<close>

definition onHandleMouseDown :: "MouseEvent \<Rightarrow> Edge \<Rightarrow> Segment \<Rightarrow> EditorState \<Rightarrow> EditorState" where
  "onHandleMouseDown e ed seg st =
     st\<lparr>resizeState := Some \<lparr>ResizeState.id = Some (Segment.id seg), edge = ed,
                             initialX = clientX e,
                             initialSourceStart = sourceStart seg,
                             initialDuration = Segment.duration seg\<rparr>\<rparr>"

text \<open>The body of the updater that \<^verbatim>\<open>onResize\<close> maps over a store (lines 525-544 and,
  with the audio assets, 548-566). \<open>assets\<close> is the asset list the closure reads;
  \<open>mx = None\<close> stands for \<^verbatim>\<open>Infinity\<close>, for which \<^verbatim>\<open>Math.min(newDuration, max - newStart)\<close>
  is \<^verbatim>\<open>newDuration\<close>. The arithmetic is exact here; \<open>resizeSegment_fl\<close> below writes out
  its rounding.\<close>

definition resizeSegment :: "Asset list \<Rightarrow> ResizeState \<Rightarrow> real \<Rightarrow> Segment \<Rightarrow> Segment" where
  "resizeSegment assets rs deltaSecs seg =
     (if Some (Segment.id seg) \<noteq> ResizeState.id rs then seg
      else
        let newStart = (if edge rs = Left
                        then max 0 (initialSourceStart rs + deltaSecs)
                        else initialSourceStart rs);
            newDuration = (if edge rs = Left
                           then initialDuration rs - deltaSecs
                           else initialDuration rs + deltaSecs);
            asset = find (\<lambda>a. Asset.id a = assetId seg) assets;
            mx = (case asset of None \<Rightarrow> None | Some a \<Rightarrow> Asset.duration a);
            newDuration' = max 0.1 (case mx of
                                      None \<Rightarrow> newDuration
                                    | Some m \<Rightarrow> min newDuration (m - newStart))
        in seg\<lparr>sourceStart := newStart, duration := newDuration'\<rparr>)"

text \<open>\<^verbatim>\<open>onResize\<close> (lines 518-568). \<open>vAssets\<close> and \<open>aAssets\<close> are the bindings
  \<^verbatim>\<open>videoAssets\<close> and \<^verbatim>\<open>audioAssets\<close> of the render whose effect created the closure.\<close>

definition onResize :: "Asset list \<Rightarrow> Asset list \<Rightarrow> MouseEvent \<Rightarrow> EditorState \<Rightarrow> EditorState" where
  "onResize vAssets aAssets e st =
     (case resizeState st of
        None \<Rightarrow> st
      | Some rs \<Rightarrow>
          let deltaPx = clientX e - ResizeState.initialX rs;
              deltaSecs = deltaPx / PIXELS_PER_SECOND
          in st\<lparr>videoSegments := map (resizeSegment vAssets rs deltaSecs) (videoSegments st),
                audioSegments := map (resizeSegment aAssets rs deltaSecs) (audioSegments st)\<rparr>)"

text \<open>The body of the updater of the drag branch (lines 500-502 and 506-508).\<close>

definition dragSegment :: "DragState \<Rightarrow> real \<Rightarrow> Segment \<Rightarrow> Segment" where
  "dragSegment ds updated seg =
     (if Some (Segment.id seg) = DragState.id ds
      then seg\<lparr>timelineStart := max 0 updated\<rparr> else seg)"

text \<open>\<^verbatim>\<open>onMouseMove\<close> (lines 492-515).\<close>

definition onMouseMove :: "Asset list \<Rightarrow> Asset list \<Rightarrow> MouseEvent \<Rightarrow> EditorState \<Rightarrow> EditorState" where
  "onMouseMove vAssets aAssets e st =
     (let st1 = (case dragState st of
                   None \<Rightarrow> st
                 | Some ds \<Rightarrow>
                     let deltaPx = clientX e - DragState.initialX ds;
                         deltaSec = deltaPx / PIXELS_PER_SECOND;
                         updated = initialOffset ds + deltaSec
                     in st\<lparr>videoSegments := map (dragSegment ds updated) (videoSegments st),
                           audioSegments := map (dragSegment ds updated) (audioSegments st)\<rparr>)
      in case resizeState st1 of
           None \<Rightarrow> st1
         | Some rs \<Rightarrow> onResize vAssets aAssets e st1)"

definition onMouseUp :: "EditorState \<Rightarrow> EditorState" where
  "onMouseUp st = st\<lparr>dragState := None, resizeState := None\<rparr>"

text \<open>The effect that installs the two window listeners has the dependency list
  \<^verbatim>\<open>[]\<close> (line 582): it runs once, after the first render, and the closures it creates
  read the \<^verbatim>\<open>videoAssets\<close> and \<^verbatim>\<open>audioAssets\<close> of that render for as long as the component
  lives. (The refs and the functional updaters are read afresh at every event.)\<close>

definition installed_onMouseMove :: "MouseEvent \<Rightarrow> EditorState \<Rightarrow> EditorState" where
  "installed_onMouseMove =
     onMouseMove (videoAssets initialState) (audioAssets initialState)"

definition installed_onResize :: "MouseEvent \<Rightarrow> EditorState \<Rightarrow> EditorState" where
  "installed_onResize =
     onResize (videoAssets initialState) (audioAssets initialState)"

subsection \<open>The resize in the arithmetic of the code\<close>

text \<open>Rounding to the nearest integer, ties to the even one.\<close>

definition roundHalfEven :: "real \<Rightarrow> int" where
  "roundHalfEven x =
     (let f = \<lfloor>x\<rfloor>; r = x - of_int f
      in if r < 1 / 2 then f else if 1 / 2 < r then f + 1 else if even f then f else f + 1)"

text \<open>The binade of a positive real: the exponent \<open>k\<close> of the doubles' range with
  \<open>2 ^ k \<le> x < 2 ^ (k + 1)\<close>; below the range it is \<open>-1075\<close>.\<close>

definition binade :: "real \<Rightarrow> int" where
  "binade x =
     (case find (\<lambda>k. 2 powi k \<le> x \<and> x < 2 powi (k + 1)) [- 1074..1023] of
        Some k \<Rightarrow> k
      | None \<Rightarrow> - 1075)"

text \<open>The double nearest to a real, ties to even: a significand of 53 bits at the binade
  of the argument, and the fixed exponent \<open>-1074\<close> for the subnormal numbers. (An argument
  beyond the largest double would round to \<^verbatim>\<open>Infinity\<close>, which is not modelled.)\<close>

definition roundToDouble :: "real \<Rightarrow> real" where
  "roundToDouble x =
     (let e = max (binade \<bar>x\<bar> - 52) (- 1074)
      in of_int (roundHalfEven (x / 2 powi e)) * 2 powi e)"

text \<open>Lines 525-544 and 548-566 again, with the rounding \<open>fl\<close> applied to the result of every
  \<^verbatim>\<open>+\<close> and \<^verbatim>\<open>-\<close> and to the literal \<^verbatim>\<open>0.1\<close>; \<^verbatim>\<open>Math.max\<close> and \<^verbatim>\<open>Math.min\<close> return one
  of their arguments. With the identity for \<open>fl\<close> this is \<open>resizeSegment\<close>, with
  \<open>roundToDouble\<close> it is what the code computes.\<close>

definition resizeSegment_fl ::
  "(real \<Rightarrow> real) \<Rightarrow> Asset list \<Rightarrow> ResizeState \<Rightarrow> real \<Rightarrow> Segment \<Rightarrow> Segment" where
  "resizeSegment_fl fl assets rs deltaSecs seg =
     (if Some (Segment.id seg) \<noteq> ResizeState.id rs then seg
      else
        let newStart = (if edge rs = Left
                        then max 0 (fl (initialSourceStart rs + deltaSecs))
                        else initialSourceStart rs);
            newDuration = (if edge rs = Left
                           then fl (initialDuration rs - deltaSecs)
                           else fl (initialDuration rs + deltaSecs));
            asset = find (\<lambda>a. Asset.id a = assetId seg) assets;
            mx = (case asset of None \<Rightarrow> None | Some a \<Rightarrow> Asset.duration a);
            newDuration' = max (fl 0.1) (case mx of
                                          None \<Rightarrow> newDuration
                                        | Some m \<Rightarrow> min newDuration (fl (m - newStart)))
        in seg\<lparr>sourceStart := newStart, duration := newDuration'\<rparr>)"

text \<open>Lines 518-568 again: the subtraction and the division of lines 521-522 round as well.\<close>

definition onResize_fl ::
  "(real \<Rightarrow> real) \<Rightarrow> Asset list \<Rightarrow> Asset list \<Rightarrow> MouseEvent \<Rightarrow> EditorState \<Rightarrow> EditorState" where
  "onResize_fl fl vAssets aAssets e st =
     (case resizeState st of
        None \<Rightarrow> st
      | Some rs \<Rightarrow>
          let deltaPx = fl (clientX e - ResizeState.initialX rs);
              deltaSecs = fl (deltaPx / PIXELS_PER_SECOND)
          in st\<lparr>videoSegments :=
                  map (resizeSegment_fl fl vAssets rs deltaSecs) (videoSegments st),
                audioSegments :=
                  map (resizeSegment_fl fl aAssets rs deltaSecs) (audioSegments st)\<rparr>)"

definition installed_onResize_fl ::
  "(real \<Rightarrow> real) \<Rightarrow> MouseEvent \<Rightarrow> EditorState \<Rightarrow> EditorState" where
  "installed_onResize_fl fl =
     onResize_fl fl (videoAssets initialState) (audioAssets initialState)"

subsection \<open>AutoCut (lines 151-215)\<close>

record Highlight =
  start :: real
  end' :: real

text \<open>The stubbed answer of the backend, the local constant of lines 153-157 and 187-191.\<close>

definition HIGHLIGHTS :: "Highlight list" where
  "HIGHLIGHTS = [\<lparr>start = 2, end' = 4\<rparr>, \<lparr>start = 6, end' = 7\<rparr>, \<lparr>start = 9, end' = 10\<rparr>]"

text \<open>\<^verbatim>\<open>HIGHLIGHTS.map((h) => ...)\<close> (lines 161-171 and 196-206). Each element calls
  \<^verbatim>\<open>createId()\<close> once, in order: \<open>createId k\<close> is the result of call number \<open>k\<close> of the
  handler, and \<open>n\<close> counts the calls made so far.\<close>

fun mapHighlights :: "(nat \<Rightarrow> Id) \<Rightarrow> nat \<Rightarrow> Asset \<Rightarrow> Highlight list \<Rightarrow> Segment list" where
  "mapHighlights createId n asset [] = []"
| "mapHighlights createId n asset (h # hs) =
     \<lparr>Segment.id = createId n, assetId = Asset.id asset, sourceStart = start h,
      duration = end' h - start h, timelineStart = 0\<rparr>
     # mapHighlights createId (Suc n) asset hs"

text \<open>The body of \<^verbatim>\<open>handleAutoCutForAsset\<close> (lines 161-176) as a function of the highlight
  list, and the handler itself, which runs it on the constant.\<close>

definition autoCutForAsset ::
  "Highlight list \<Rightarrow> (nat \<Rightarrow> Id) \<Rightarrow> Asset \<Rightarrow> EditorState \<Rightarrow> EditorState" where
  "autoCutForAsset hs createId asset st =
     (let newSegments = mapHighlights createId 0 asset hs
      in case newSegments of
           [] \<Rightarrow> st
         | s0 # _ \<Rightarrow> st\<lparr>videoSegments := videoSegments st @ newSegments,
                       selectedVideoSegmentId := Some (Segment.id s0)\<rparr>)"

definition handleAutoCutForAsset :: "(nat \<Rightarrow> Id) \<Rightarrow> Asset \<Rightarrow> EditorState \<Rightarrow> EditorState" where
  "handleAutoCutForAsset = autoCutForAsset HIGHLIGHTS"

text \<open>The \<^verbatim>\<open>forEach\<close> of lines 195-209.\<close>

fun forEachAsset :: "(nat \<Rightarrow> Id) \<Rightarrow> nat \<Rightarrow> Asset list \<Rightarrow> Highlight list \<Rightarrow> Segment list" where
  "forEachAsset createId n [] hs = []"
| "forEachAsset createId n (asset # assets) hs =
     mapHighlights createId n asset hs @ forEachAsset createId (n + length hs) assets hs"

text \<open>\<^verbatim>\<open>handleAutoCutAll\<close> (lines 180-215), again with its body as a function of the highlight
  list. The \<^verbatim>\<open>alert\<close> of the first branch changes no state.\<close>

definition autoCutAll :: "Highlight list \<Rightarrow> (nat \<Rightarrow> Id) \<Rightarrow> EditorState \<Rightarrow> EditorState" where
  "autoCutAll hs createId st =
     (if length (videoAssets st) = 0 then st
      else
        let allNewSegments = forEachAsset createId 0 (videoAssets st) hs
        in case allNewSegments of
             [] \<Rightarrow> st
           | s0 # _ \<Rightarrow> st\<lparr>videoSegments := videoSegments st @ allNewSegments,
                         selectedVideoSegmentId := Some (Segment.id s0)\<rparr>)"

definition handleAutoCutAll :: "(nat \<Rightarrow> Id) \<Rightarrow> EditorState \<Rightarrow> EditorState" where
  "handleAutoCutAll = autoCutAll HIGHLIGHTS"

subsection \<open>Playback of the video track (lines 305-342, 388-413, 737-741)\<close>

text \<open>\<^verbatim>\<open>Array.prototype.findIndex\<close> (\<open>-1\<close> when nothing matches) and an index read with
  \<^verbatim>\<open>?? null\<close> (\<open>None\<close> out of range).\<close>

fun findIndex :: "('a \<Rightarrow> bool) \<Rightarrow> 'a list \<Rightarrow> int" where
  "findIndex P [] = - 1"
| "findIndex P (x # xs) =
     (if P x then 0 else (let r = findIndex P xs in if r < 0 then - 1 else r + 1))"

definition at_index :: "'a list \<Rightarrow> int \<Rightarrow> 'a option" where
  "at_index xs i = (if 0 \<le> i \<and> i < int (length xs) then Some (xs ! nat i) else None)"

text \<open>\<^verbatim>\<open>[...segments].sort((a, b) => a.timelineStart - b.timelineStart)\<close>: the sort of an
  array is stable, and so is \<^const>\<open>sort_key\<close>.\<close>

definition sortedByTimelineStart :: "Segment list \<Rightarrow> Segment list" where
  "sortedByTimelineStart segs = sort_key timelineStart segs"

definition getNextVideoSegment :: "EditorState \<Rightarrow> Segment option" where
  "getNextVideoSegment st =
     (case selectedVideoSegment st of
        None \<Rightarrow> None
      | Some sel \<Rightarrow>
          let sorted = sortedByTimelineStart (videoSegments st);
              idx = findIndex (\<lambda>s. Segment.id s = Segment.id sel) sorted
          in at_index sorted (idx + 1))"

text \<open>The preview element carries \<^verbatim>\<open>ref={videoRef}\<close> and is rendered only while a selected
  asset exists (lines 737-741); otherwise a placeholder is rendered and React resets the ref
  to \<^verbatim>\<open>null\<close>. \<open>commitVideoRef\<close> is what a render does to the ref.\<close>

definition commitVideoRef :: "EditorState \<Rightarrow> EditorState" where
  "commitVideoRef st =
     (case selectedVideoAsset st of
        None \<Rightarrow> st\<lparr>videoRef := None\<rparr>
      | Some a \<Rightarrow>
          (case videoRef st of
             Some v \<Rightarrow> st
           | None \<Rightarrow> st\<lparr>videoRef := Some \<lparr>currentTime = 0, paused = True\<rparr>\<rparr>))"

text \<open>The \<^verbatim>\<open>onClick\<close> of a segment of the video track (line 781).\<close>

definition onVideoSegmentClick :: "Segment \<Rightarrow> EditorState \<Rightarrow> EditorState" where
  "onVideoSegmentClick seg st = st\<lparr>selectedVideoSegmentId := Some (Segment.id seg)\<rparr>"

text \<open>\<^verbatim>\<open>togglePlayback\<close> (lines 318-342). \<^verbatim>\<open>video.pause()\<close> sets the element's
  \<^verbatim>\<open>paused\<close> flag.\<close>

definition togglePlayback :: "EditorState \<Rightarrow> EditorState" where
  "togglePlayback st =
     (case videoRef st of
        None \<Rightarrow> st
      | Some video \<Rightarrow>
          if \<not> isPlaying st then
            (let startSegment = selectedVideoSegment st;
                 (startSegment1, st1) =
                   (if startSegment = None \<and> length (videoSegments st) > 0
                    then (let sorted = sortedByTimelineStart (videoSegments st);
                              s0 = sorted ! 0
                          in (Some s0, st\<lparr>selectedVideoSegmentId := Some (Segment.id s0)\<rparr>))
                    else (startSegment, st))
             in if startSegment1 = None then st1 else st1\<lparr>isPlaying := True\<rparr>)
          else st\<lparr>isPlaying := False, videoRef := Some (video\<lparr>paused := True\<rparr>)\<rparr>)"

text \<open>The listener of the effect of lines 389-413. The effect installs it only when the
  element and a selected segment exist, and installs a fresh closure whenever the selected
  segment, \<^verbatim>\<open>isPlaying\<close> or the store change, so it reads the current state.\<close>

definition onTimeUpdate :: "EditorState \<Rightarrow> EditorState" where
  "onTimeUpdate st =
     (case videoRef st of
        None \<Rightarrow> st
      | Some video \<Rightarrow>
          (case selectedVideoSegment st of
             None \<Rightarrow> st
           | Some sel \<Rightarrow>
               let stopAt = sourceStart sel + Segment.duration sel
               in if \<not> isPlaying st then st
                  else if currentTime video \<ge> stopAt then
                    (case getNextVideoSegment st of
                       Some next \<Rightarrow> st\<lparr>selectedVideoSegmentId := Some (Segment.id next)\<rparr>
                     | None \<Rightarrow> st\<lparr>isPlaying := False,
                                  videoRef := Some (video\<lparr>paused := True\<rparr>)\<rparr>)
                  else st))"

text \<open>A progress notification of the engine: the element's position is \<open>p\<close> and the
  \<^verbatim>\<open>timeupdate\<close> listener runs.\<close>

definition timeupdate :: "real \<Rightarrow> EditorState \<Rightarrow> EditorState" where
  "timeupdate p st =
     (case videoRef st of
        None \<Rightarrow> st
      | Some video \<Rightarrow> onTimeUpdate (st\<lparr>videoRef := Some (video\<lparr>currentTime := p\<rparr>)\<rparr>))"

text \<open>The body of the effect of lines 371-377, which runs after a render in which the
  selected segment, the selected asset or \<^verbatim>\<open>isPlaying\<close> changed. \<^verbatim>\<open>play()\<close> clears the
  element's \<^verbatim>\<open>paused\<close> flag; a rejected promise is only logged.\<close>

definition seekAndPlay :: "EditorState \<Rightarrow> EditorState" where
  "seekAndPlay st =
     (case videoRef st of
        None \<Rightarrow> st
      | Some video \<Rightarrow>
          (case selectedVideoSegment st of
             None \<Rightarrow> st
           | Some sel \<Rightarrow>
               if \<not> isPlaying st then st
               else st\<lparr>videoRef := Some (video\<lparr>currentTime := sourceStart sel,
                                                paused := False\<rparr>)\<rparr>))"

text \<open>On the audio track the element with \<^verbatim>\<open>ref={audioRef}\<close> is rendered only while a
  selected audio asset exists (lines 753-765), and \<^verbatim>\<open>toggleAudioPlayback\<close> (lines 344-367)
  starts with the same check. Its button is rendered together with the element (lines
  757-761), so there it cannot be pressed while nothing is selected.\<close>

definition commitAudioRef :: "EditorState \<Rightarrow> EditorState" where
  "commitAudioRef st =
     (case selectedAudioAsset st of
        None \<Rightarrow> st\<lparr>audioRef := None\<rparr>
      | Some a \<Rightarrow>
          (case audioRef st of
             Some v \<Rightarrow> st
           | None \<Rightarrow> st\<lparr>audioRef := Some \<lparr>currentTime = 0, paused = True\<rparr>\<rparr>))"

definition toggleAudioPlayback :: "EditorState \<Rightarrow> EditorState" where
  "toggleAudioPlayback st =
     (case audioRef st of
        None \<Rightarrow> st
      | Some audio \<Rightarrow>
          if \<not> isAudioPlaying st then
            (let startSegment = selectedAudioSegment st;
                 (startSegment1, st1) =
                   (if startSegment = None \<and> length (audioSegments st) > 0
                    then (let sorted = sortedByTimelineStart (audioSegments st);
                              s0 = sorted ! 0
                          in (Some s0, st\<lparr>selectedAudioSegmentId := Some (Segment.id s0)\<rparr>))
                    else (startSegment, st))
             in if startSegment1 = None then st1 else st1\<lparr>isAudioPlaying := True\<rparr>)
          else st\<lparr>isAudioPlaying := False, audioRef := Some (audio\<lparr>paused := True\<rparr>)\<rparr>)"

subsection \<open>A move that no clamp touches\<close>

text \<open>A left-edge move by \<open>d\<close> seconds of a gesture that started on \<open>seg\<close>, in the
  arithmetic \<open>fl\<close>: the clamp at 0 returns its argument, and so do the floor of 0.1 and,
  where the updater finds the asset with a known duration, the ceiling.\<close>

definition unclamped_fl :: "(real \<Rightarrow> real) \<Rightarrow> Asset list \<Rightarrow> Segment \<Rightarrow> real \<Rightarrow> bool" where
  "unclamped_fl fl assets seg d \<longleftrightarrow>
     0 \<le> fl (sourceStart seg + d) \<and>
     fl 0.1 \<le> fl (Segment.duration seg - d) \<and>
     (case find (\<lambda>a. Asset.id a = assetId seg) assets of
        None \<Rightarrow> True
      | Some a \<Rightarrow>
          (case Asset.duration a of
             None \<Rightarrow> True
           | Some m \<Rightarrow> fl (Segment.duration seg - d) \<le> fl (m - fl (sourceStart seg + d))))"

subsection \<open>Concrete editor states\<close>

text \<open>One video asset of 12 seconds, and the segment that \<^verbatim>\<open>+ Timeline\<close> makes of it.\<close>

definition ex_asset :: Asset where
  "ex_asset = \<lparr>Asset.id = ''v1'', name = ''clip.mp4'', url = ''blob:1'', duration = Some 12\<rparr>"

definition ex_seg :: Segment where
  "ex_seg = \<lparr>Segment.id = ''s1'', assetId = ''v1'', sourceStart = 0, duration = 12,
             timelineStart = 0\<rparr>"

definition ex_added :: EditorState where
  "ex_added = addVideoToTimeline ''s1'' ex_asset (initialState\<lparr>videoAssets := [ex_asset]\<rparr>)"

text \<open>The user types \<open>-1\<close> into the field \<^verbatim>\<open>Source start\<close> (lines 875-882).\<close>

definition ex_typed :: EditorState where
  "ex_typed = updateVideoSegment ''s1''
     \<lparr>SegmentPatch.id = None, assetId = None, sourceStart = Some (- 1), duration = None,
      timelineStart = None\<rparr> ex_added"

text \<open>The pointer goes down on the left handle of the segment at \<open>x = 0\<close>.\<close>

definition ex_resizing :: EditorState where
  "ex_resizing = onHandleMouseDown \<lparr>clientX = 0\<rparr> Left ex_seg ex_added"

text \<open>An asset whose metadata has not arrived.\<close>

definition ex_pending :: Asset where
  "ex_pending = \<lparr>Asset.id = ''v2'', name = ''new.mp4'', url = ''blob:2'', duration = None\<rparr>"

text \<open>Three results of \<^verbatim>\<open>createId()\<close>.\<close>

definition ex_createId :: "nat \<Rightarrow> Id" where
  "ex_createId k = (if k = 0 then ''h0'' else if k = 1 then ''h1'' else ''h2'')"

text \<open>A video track that holds \<open>A\<close> (at 0 for 3 seconds) and \<open>B\<close> (at 5 for 2 seconds) with
  nothing selected and playback stopped.\<close>

definition ex_A :: Segment where
  "ex_A = \<lparr>Segment.id = ''a'', assetId = ''v1'', sourceStart = 1, duration = 3,
           timelineStart = 0\<rparr>"

definition ex_B :: Segment where
  "ex_B = \<lparr>Segment.id = ''b'', assetId = ''v1'', sourceStart = 6, duration = 2,
           timelineStart = 5\<rparr>"

definition ex_AB :: EditorState where
  "ex_AB = initialState\<lparr>videoAssets := [ex_asset], videoSegments := [ex_A, ex_B]\<rparr>"

text \<open>The patches that the three number fields send (lines 875-905).\<close>

definition sourceStartPatch :: "real \<Rightarrow> SegmentPatch" where
  "sourceStartPatch v = \<lparr>SegmentPatch.id = None, assetId = None, sourceStart = Some v,
     duration = None, timelineStart = None\<rparr>"

definition durationPatch :: "real \<Rightarrow> SegmentPatch" where
  "durationPatch v = \<lparr>SegmentPatch.id = None, assetId = None, sourceStart = None,
     duration = Some v, timelineStart = None\<rparr>"

definition timelineStartPatch :: "real \<Rightarrow> SegmentPatch" where
  "timelineStartPatch v = \<lparr>SegmentPatch.id = None, assetId = None, sourceStart = None,
     duration = None, timelineStart = Some v\<rparr>"

text \<open>A session that ends in that state: two segments are added and edited, a third is
  added and deleted again. Every event is followed by a render.\<close>

definition ex_AB_history :: EditorState where
  "ex_AB_history =
     (commitVideoRef \<circ> deleteVideoSegment ''c'' \<circ>
      commitVideoRef \<circ> addVideoToTimeline ''c'' ex_asset \<circ>
      commitVideoRef \<circ> updateVideoSegment ''b'' (timelineStartPatch 5) \<circ>
      commitVideoRef \<circ> updateVideoSegment ''b'' (durationPatch 2) \<circ>
      commitVideoRef \<circ> updateVideoSegment ''b'' (sourceStartPatch 6) \<circ>
      commitVideoRef \<circ> addVideoToTimeline ''b'' ex_asset \<circ>
      commitVideoRef \<circ> updateVideoSegment ''a'' (durationPatch 3) \<circ>
      commitVideoRef \<circ> updateVideoSegment ''a'' (sourceStartPatch 1) \<circ>
      commitVideoRef \<circ> addVideoToTimeline ''a'' ex_asset)
     (initialState\<lparr>videoAssets := [ex_asset]\<rparr>)"

text \<open>The user types \<open>0.1\<close> and \<open>0.7\<close> into the fields \<^verbatim>\<open>Source start\<close> and \<^verbatim>\<open>Duration\<close>;
  \<^verbatim>\<open>Number(e.target.value)\<close> is the nearest double.\<close>

definition ex_seg_tenths :: Segment where
  "ex_seg_tenths = \<lparr>Segment.id = ''s1'', assetId = ''v1'', sourceStart = roundToDouble 0.1,
                    duration = roundToDouble 0.7, timelineStart = 0\<rparr>"

definition ex_tenths :: EditorState where
  "ex_tenths =
     updateVideoSegment ''s1'' (durationPatch (roundToDouble 0.7))
       (updateVideoSegment ''s1'' (sourceStartPatch (roundToDouble 0.1)) ex_added)"

text \<open>Then the left handle goes down at \<open>x = 0\<close> and the pointer moves to \<open>x = 16\<close>.\<close>

definition ex_tenths_resized :: EditorState where
  "ex_tenths_resized =
     installed_onResize_fl roundToDouble \<lparr>clientX = 16\<rparr>
       (onHandleMouseDown \<lparr>clientX = 0\<rparr> Left ex_seg_tenths ex_tenths)"

text \<open>The gesture of \<open>ex_resizing\<close> after a first move, to \<open>x = 20\<close>.\<close>

definition ex_moved :: EditorState where
  "ex_moved = installed_onResize_fl roundToDouble \<lparr>clientX = 20\<rparr> ex_resizing"

section \<open>Properties\<close>

lemmas ex_defs = ex_asset_def ex_seg_def ex_added_def ex_typed_def ex_resizing_def
  initialState_def addVideoToTimeline_def updateVideoSegment_def applyPatch_def
  onHandleMouseDown_def onResize_def installed_onResize_def resizeSegment_def
  PIXELS_PER_SECOND_def

subsection \<open>Resize\<close>

lemma resizeSegment_id: "Segment.id (resizeSegment assets rs d seg) = Segment.id seg"
  by (simp add: resizeSegment_def Let_def)

lemma resizeSegment_assetId: "assetId (resizeSegment assets rs d seg) = assetId seg"
  by (simp add: resizeSegment_def Let_def)

lemma resizeSegment_timelineStart:
  "timelineStart (resizeSegment assets rs d seg) = timelineStart seg"
  by (simp add: resizeSegment_def Let_def)

lemma resizeSegment_other:
  "Some (Segment.id seg) \<noteq> ResizeState.id rs \<Longrightarrow> resizeSegment assets rs d seg = seg"
  by (simp add: resizeSegment_def)

lemma installed_onResize_finds_no_asset:
  "installed_onResize e st = onResize [] [] e st"
  by (simp add: installed_onResize_def initialState_def)








text \<open>The ceiling of lines 539-541 is not among these bounds. The closures that the mount
  effect installs read the asset lists of the first render, which are empty, so the
  installed resize finds no asset and applies the floor only: a right-edge resize by 400
  pixels stretches the 12 second segment of the 12 second asset to 17 seconds.\<close>

lemma installed_onResize_exceeds_asset:
  "videoSegments (installed_onResize \<lparr>clientX = 400\<rparr>
       (onHandleMouseDown \<lparr>clientX = 0\<rparr> Right ex_seg ex_added))
     = [\<lparr>Segment.id = ''s1'', assetId = ''v1'', sourceStart = 0, duration = 17,
         timelineStart = 0\<rparr>] \<and>
   find (\<lambda>a. Asset.id a = ''v1'') (videoAssets ex_added) = Some ex_asset \<and>
   Asset.duration ex_asset = Some 12"
  by (simp add: ex_defs)

subsection \<open>The left edge and the end in source time\<close>

text \<open>Evaluating the rounding: a positive \<open>x\<close> that \<open>2 ^ n\<close> scales into the range of a
  53 bit significand is rounded at that scale.\<close>

lemma find_unique:
  assumes "k \<in> set xs" and "P k" and "\<And>j. j \<in> set xs \<Longrightarrow> P j \<Longrightarrow> j = k"
  shows "find P xs = Some k"
  using assms
proof (induction xs)
  case Nil
  then show ?case by simp
next
  case (Cons a xs)
  show ?case
  proof (cases "P a")
    case True
    with Cons.prems(3) [of a] show ?thesis by simp
  next
    case False
    with Cons.prems(1,2) have k: "k \<in> set xs" by auto
    have "find P xs = Some k"
    proof (rule Cons.IH)
      show "k \<in> set xs" by (fact k)
      show "P k" by (fact Cons.prems(2))
      show "j = k" if "j \<in> set xs" "P j" for j
        using Cons.prems(3) [of j] that by simp
    qed
    with False show ?thesis by simp
  qed
qed

lemma binade_unique:
  fixes x :: real
  assumes "2 powi j \<le> x" "x < 2 powi (j + 1)" "2 powi k \<le> x" "x < 2 powi (k + 1)"
  shows "j = k"
proof (rule ccontr)
  assume "j \<noteq> k"
  then consider "j + 1 \<le> k" | "k + 1 \<le> j" by linarith
  then show False
  proof cases
    case 1
    then have "(2::real) powi (j + 1) \<le> 2 powi k"
      by (intro power_int_increasing) simp_all
    with assms show False by linarith
  next
    case 2
    then have "(2::real) powi (k + 1) \<le> 2 powi j"
      by (intro power_int_increasing) simp_all
    with assms show False by linarith
  qed
qed

lemma binade_eq:
  assumes "2 powi k \<le> x" and "x < 2 powi (k + 1)" and "- 1074 \<le> k" and "k \<le> 1023"
  shows "binade x = k"
proof -
  have "find (\<lambda>k. 2 powi k \<le> x \<and> x < 2 powi (k + 1)) [- 1074..1023] = Some k"
  proof (rule find_unique)
    show "k \<in> set [- 1074..1023]"
      using assms(3,4) by (simp del: upto_rec_numeral)
    show "2 powi k \<le> x \<and> x < 2 powi (k + 1)"
      using assms(1,2) by simp
    show "j = k" if "2 powi j \<le> x \<and> x < 2 powi (j + 1)" for j
      using that assms(1,2) by (intro binade_unique [of j x k]) simp_all
  qed
  then show ?thesis
    by (simp add: binade_def del: upto_rec_numeral)
qed

lemma roundToDouble_scaled:
  assumes "0 < x" and "2 ^ 52 \<le> x * 2 ^ n" and "x * 2 ^ n < 2 ^ 53" and "n \<le> 1074"
  shows "roundToDouble x = of_int (roundHalfEven (x * 2 ^ n)) / 2 ^ n"
proof -
  have p: "(2::real) powi (52 - int n) = 2 ^ 52 / 2 ^ n"
    "(2::real) powi (52 - int n + 1) = 2 ^ 53 / 2 ^ n"
    "(2::real) powi (- int n) = 1 / 2 ^ n"
    by (simp_all add: power_int_diff power_int_add power_int_minus divide_simps)
  have "2 powi (52 - int n) \<le> x \<and> x < 2 powi (52 - int n + 1)"
    unfolding p using assms(2,3) by (simp add: divide_simps)
  then have "binade x = 52 - int n"
    using assms(4) by (intro binade_eq) simp_all
  then have "max (binade \<bar>x\<bar> - 52) (- 1074) = - int n"
    using assms(1,4) by simp
  then show ?thesis
    using p(3) by (simp add: roundToDouble_def Let_def)
qed

lemma double_tenth: "roundToDouble (1 / 10) = 3602879701896397 / 36028797018963968"
  by (subst roundToDouble_scaled [where n = 56]) (simp_all add: roundHalfEven_def Let_def)

lemma double_seven_tenths: "roundToDouble (7 / 10) = 3152519739159347 / 4503599627370496"
  by (subst roundToDouble_scaled [where n = 53]) (simp_all add: roundHalfEven_def Let_def)

lemma double_16: "roundToDouble (16) = 16"
  by (subst roundToDouble_scaled [where n = 48]) (simp_all add: roundHalfEven_def Let_def)

lemma double_fifth: "roundToDouble (1 / 5) = 3602879701896397 / 18014398509481984"
  by (subst roundToDouble_scaled [where n = 55]) (simp_all add: roundHalfEven_def Let_def)

lemma double_start: "roundToDouble (10808639105689191 / 36028797018963968) = 1351079888211149 / 4503599627370496"
  by (subst roundToDouble_scaled [where n = 54]) (simp_all add: roundHalfEven_def Let_def)

lemma double_duration: "roundToDouble (9007199254740991 / 18014398509481984) = 9007199254740991 / 18014398509481984"
  by (subst roundToDouble_scaled [where n = 54]) (simp_all add: roundHalfEven_def Let_def)

lemma double_room: "roundToDouble (52692115640234803 / 4503599627370496) = 3293257227514675 / 281474976710656"
  by (subst roundToDouble_scaled [where n = 49]) (simp_all add: roundHalfEven_def Let_def)

lemma double_sum_before: "roundToDouble (28823037615171173 / 36028797018963968) = 7205759403792793 / 9007199254740992"
  by (subst roundToDouble_scaled [where n = 53]) (simp_all add: roundHalfEven_def Let_def)

lemma double_sum_after: "roundToDouble (14411518807585587 / 18014398509481984) = 3602879701896397 / 4503599627370496"
  by (subst roundToDouble_scaled [where n = 53]) (simp_all add: roundHalfEven_def Let_def)

lemma double_20: "roundToDouble (20) = 20"
  by (subst roundToDouble_scaled [where n = 48]) (simp_all add: roundHalfEven_def Let_def)

lemma double_quarter: "roundToDouble (1 / 4) = 1 / 4"
  by (subst roundToDouble_scaled [where n = 54]) (simp_all add: roundHalfEven_def Let_def)

lemma double_47_4: "roundToDouble (47 / 4) = 47 / 4"
  by (subst roundToDouble_scaled [where n = 49]) (simp_all add: roundHalfEven_def Let_def)

lemma double_40: "roundToDouble (40) = 40"
  by (subst roundToDouble_scaled [where n = 47]) (simp_all add: roundHalfEven_def Let_def)

lemma double_half: "roundToDouble (1 / 2) = 1 / 2"
  by (subst roundToDouble_scaled [where n = 53]) (simp_all add: roundHalfEven_def Let_def)

lemma double_23_2: "roundToDouble (23 / 2) = 23 / 2"
  by (subst roundToDouble_scaled [where n = 49]) (simp_all add: roundHalfEven_def Let_def)

lemmas double_evals = double_tenth double_seven_tenths double_16 double_fifth double_start
  double_duration double_room double_sum_before double_sum_after double_20 double_quarter
  double_47_4 double_40 double_half double_23_2

lemmas fl_defs = ex_seg_tenths_def ex_tenths_def ex_tenths_resized_def ex_moved_def
  sourceStartPatch_def durationPatch_def installed_onResize_fl_def onResize_fl_def
  resizeSegment_fl_def unclamped_fl_def Let_def

text \<open>
  \<^bold>\<open>C2\<close>, as the spec states it, fails in the arithmetic of the code. A segment has the
  source start 0.1 and the duration 0.7 (the doubles nearest to them), which sum to
  \<open>28823037615171173 / 2 ^ 55\<close>. A left-edge move by 16 pixels is a move by the double nearest
  to 0.2; no clamp engages, whether the updater finds the asset or not. The addition
  \<open>0.1 + 0.2\<close> rounds up to 0.30000000000000004, the subtraction \<open>0.7 - 0.2\<close> is exact, and
  the segment written sums to \<open>28823037615171174 / 2 ^ 55\<close>. Added as doubles, the two fields
  give 0.7999999999999999 before the move and 0.8 after it.
\<close>

theorem left_resize_rounding_counterexample:
  "videoSegments ex_tenths = [ex_seg_tenths] \<and>
   unclamped_fl roundToDouble []
     ex_seg_tenths (roundToDouble (roundToDouble (16 - 0) / PIXELS_PER_SECOND)) \<and>
   unclamped_fl roundToDouble (videoAssets ex_tenths)
     ex_seg_tenths (roundToDouble (roundToDouble (16 - 0) / PIXELS_PER_SECOND)) \<and>
   videoSegments ex_tenths_resized
     = [\<lparr>Segment.id = ''s1'', assetId = ''v1'',
         sourceStart = 1351079888211149 / 4503599627370496,
         duration = 9007199254740991 / 18014398509481984, timelineStart = 0\<rparr>] \<and>
   videoSegments (onResize_fl roundToDouble (videoAssets ex_tenths) (audioAssets ex_tenths)
       \<lparr>clientX = 16\<rparr> (onHandleMouseDown \<lparr>clientX = 0\<rparr> Left ex_seg_tenths ex_tenths))
     = videoSegments ex_tenths_resized \<and>
   sourceStart ex_seg_tenths + Segment.duration ex_seg_tenths
     = 28823037615171173 / 2 ^ 55 \<and>
   sourceStart (hd (videoSegments ex_tenths_resized))
     + Segment.duration (hd (videoSegments ex_tenths_resized))
     = 28823037615171174 / 2 ^ 55 \<and>
   sourceStart (hd (videoSegments ex_tenths_resized))
     + Segment.duration (hd (videoSegments ex_tenths_resized))
     \<noteq> sourceStart ex_seg_tenths + Segment.duration ex_seg_tenths \<and>
   roundToDouble (sourceStart ex_seg_tenths + Segment.duration ex_seg_tenths)
     = 7205759403792793 / 2 ^ 53 \<and>
   roundToDouble (sourceStart (hd (videoSegments ex_tenths_resized))
     + Segment.duration (hd (videoSegments ex_tenths_resized)))
     = 7205759403792794 / 2 ^ 53"
  by (simp add: fl_defs ex_defs double_evals)

lemma resizeSegment_fl_left_unclamped:
  assumes "Segment.id cur = Segment.id seg" and "assetId cur = assetId seg"
    and "unclamped_fl fl assets seg d"
  shows "resizeSegment_fl fl assets
           \<lparr>ResizeState.id = Some (Segment.id seg), edge = Left, initialX = x0,
            initialSourceStart = sourceStart seg, initialDuration = Segment.duration seg\<rparr> d cur
         = cur\<lparr>sourceStart := fl (sourceStart seg + d),
               duration := fl (Segment.duration seg - d)\<rparr>"
  using assms
  by (auto simp add: unclamped_fl_def resizeSegment_fl_def Let_def max_def min_def
      split: option.splits)

text \<open>
  \<^bold>\<open>C2\<close>, amended. A left-edge gesture started on the segment \<open>seg\<close> and is still open; the
  pointer is \<open>d\<close> seconds from where it went down, no clamp engages, and the addition
  \<open>sourceStart + d\<close> and the subtraction \<open>duration - d\<close> on the values that \<open>seg\<close> had when the
  gesture started are exact in the arithmetic \<open>fl\<close> of the code. Then the write gives every
  segment of either store that has the id and the asset of \<open>seg\<close>, whatever earlier moves
  made of its fields, a \<open>sourceStart + duration\<close> equal to that of \<open>seg\<close> when the gesture
  started. (In exact arithmetic, \<open>fl\<close> the identity, the two operations are always exact.)
\<close>

theorem left_resize_preserves_source_end:
  assumes "resizeState st = resizeState (onHandleMouseDown e0 Left seg st0)"
    and "st' = onResize_fl fl vAssets aAssets e st"
    and "d = fl (fl (clientX e - clientX e0) / PIXELS_PER_SECOND)"
    and "fl (sourceStart seg + d) = sourceStart seg + d"
    and "fl (Segment.duration seg - d) = Segment.duration seg - d"
  shows "(\<forall>i < length (videoSegments st).
            Segment.id (videoSegments st ! i) = Segment.id seg \<and>
            assetId (videoSegments st ! i) = assetId seg \<and> unclamped_fl fl vAssets seg d \<longrightarrow>
            sourceStart (videoSegments st' ! i) + Segment.duration (videoSegments st' ! i)
              = sourceStart seg + Segment.duration seg) \<and>
         (\<forall>i < length (audioSegments st).
            Segment.id (audioSegments st ! i) = Segment.id seg \<and>
            assetId (audioSegments st ! i) = assetId seg \<and> unclamped_fl fl aAssets seg d \<longrightarrow>
            sourceStart (audioSegments st' ! i) + Segment.duration (audioSegments st' ! i)
              = sourceStart seg + Segment.duration seg)"
  using assms
  by (simp add: onHandleMouseDown_def onResize_fl_def Let_def resizeSegment_fl_left_unclamped)

theorem left_resize_preserves_source_end_witness:
  "resizeState ex_moved = resizeState (onHandleMouseDown \<lparr>clientX = 0\<rparr> Left ex_seg ex_added) \<and>
   videoSegments ex_moved
     = [\<lparr>Segment.id = ''s1'', assetId = ''v1'', sourceStart = 0.25, duration = 11.75,
         timelineStart = 0\<rparr>] \<and>
   roundToDouble (roundToDouble (40 - 0) / PIXELS_PER_SECOND) = 0.5 \<and>
   roundToDouble (sourceStart ex_seg + 0.5) = sourceStart ex_seg + 0.5 \<and>
   roundToDouble (Segment.duration ex_seg - 0.5) = Segment.duration ex_seg - 0.5 \<and>
   unclamped_fl roundToDouble [] ex_seg 0.5 \<and>
   videoSegments (installed_onResize_fl roundToDouble \<lparr>clientX = 40\<rparr> ex_moved)
     = [\<lparr>Segment.id = ''s1'', assetId = ''v1'', sourceStart = 0.5, duration = 11.5,
         timelineStart = 0\<rparr>] \<and>
   sourceStart (videoSegments (installed_onResize_fl roundToDouble \<lparr>clientX = 40\<rparr> ex_moved) ! 0)
   + Segment.duration
       (videoSegments (installed_onResize_fl roundToDouble \<lparr>clientX = 40\<rparr> ex_moved) ! 0)
     = sourceStart ex_seg + Segment.duration ex_seg"
proof -
  let ?st' = "installed_onResize_fl roundToDouble \<lparr>clientX = 40\<rparr> ex_moved"
  have gesture: "resizeState ex_moved
      = resizeState (onHandleMouseDown \<lparr>clientX = 0\<rparr> Left ex_seg ex_added)"
    by (simp add: fl_defs ex_defs)
  have moved: "videoSegments ex_moved
     = [\<lparr>Segment.id = ''s1'', assetId = ''v1'', sourceStart = 0.25, duration = 11.75,
         timelineStart = 0\<rparr>]"
    by (simp add: fl_defs ex_defs double_evals)
  have d: "roundToDouble (roundToDouble (clientX \<lparr>clientX = 40\<rparr> - clientX \<lparr>clientX = 0\<rparr>)
             / PIXELS_PER_SECOND) = 0.5"
    by (simp add: PIXELS_PER_SECOND_def double_evals)
  have exact: "roundToDouble (sourceStart ex_seg + 0.5) = sourceStart ex_seg + 0.5"
    "roundToDouble (Segment.duration ex_seg - 0.5) = Segment.duration ex_seg - 0.5"
    by (simp_all add: ex_seg_def double_evals)
  have free: "unclamped_fl roundToDouble [] ex_seg 0.5"
    by (simp add: unclamped_fl_def ex_seg_def double_evals)
  have written: "videoSegments ?st'
     = [\<lparr>Segment.id = ''s1'', assetId = ''v1'', sourceStart = 0.5, duration = 11.5,
         timelineStart = 0\<rparr>]"
    by (simp add: fl_defs ex_defs double_evals)
  have st': "?st' = onResize_fl roundToDouble [] [] \<lparr>clientX = 40\<rparr> ex_moved"
    by (simp add: installed_onResize_fl_def initialState_def)
  from left_resize_preserves_source_end [OF gesture st' d [symmetric] exact]
  have "sourceStart (videoSegments ?st' ! 0) + Segment.duration (videoSegments ?st' ! 0)
     = sourceStart ex_seg + Segment.duration ex_seg"
    using free by (simp add: moved ex_seg_def)
  with gesture moved d exact free written show ?thesis
    by simp
qed

subsection \<open>Drag\<close>

text \<open>
  \<^bold>\<open>C3\<close>. A drag gesture starts on a segment \<open>seg\<close> and the pointer moves by
  \<open>clientX e - clientX e0\<close> pixels. Then, in both stores, every segment with the id of \<open>seg\<close>
  has \<open>timelineStart = max 0 (t0 + pixels / 80)\<close>, where \<open>t0\<close> is the time-line start of
  \<open>seg\<close> when the gesture started, and every other segment has the \<open>timelineStart\<close> it had.
  When no resize gesture is open at the same time, that field of those segments is all that
  changed in the two stores.
\<close>

theorem drag_sets_timelineStart:
  assumes "st1 = onSegmentMouseDown e0 (Segment.id seg) (timelineStart seg) st0"
    and "st2 = onMouseMove vAssets aAssets e st1"
    and "t = max 0 (timelineStart seg + (clientX e - clientX e0) / 80)"
  shows "(\<forall>i < length (videoSegments st0).
            timelineStart (videoSegments st2 ! i)
              = (if Segment.id (videoSegments st0 ! i) = Segment.id seg then t
                 else timelineStart (videoSegments st0 ! i))) \<and>
         (\<forall>i < length (audioSegments st0).
            timelineStart (audioSegments st2 ! i)
              = (if Segment.id (audioSegments st0 ! i) = Segment.id seg then t
                 else timelineStart (audioSegments st0 ! i))) \<and>
         (resizeState st0 = None \<longrightarrow>
            videoSegments st2 =
              map (\<lambda>s. if Segment.id s = Segment.id seg then s\<lparr>timelineStart := t\<rparr> else s)
                (videoSegments st0) \<and>
            audioSegments st2 =
              map (\<lambda>s. if Segment.id s = Segment.id seg then s\<lparr>timelineStart := t\<rparr> else s)
                (audioSegments st0))"
proof (cases "resizeState st0")
  case None
  with assms show ?thesis
    by (simp add: onSegmentMouseDown_def onMouseMove_def Let_def dragSegment_def
        PIXELS_PER_SECOND_def)
next
  case (Some rs)
  with assms show ?thesis
    by (simp add: onSegmentMouseDown_def onMouseMove_def onResize_def Let_def dragSegment_def
        PIXELS_PER_SECOND_def resizeSegment_timelineStart)
qed

theorem drag_sets_timelineStart_witness:
  "resizeState ex_AB = None \<and>
   videoSegments (installed_onMouseMove \<lparr>clientX = 260\<rparr>
       (onSegmentMouseDown \<lparr>clientX = 100\<rparr> ''b'' 5 ex_AB))
     = [ex_A, ex_B\<lparr>timelineStart := 7\<rparr>] \<and>
   videoSegments (installed_onMouseMove \<lparr>clientX = - 700\<rparr>
       (onSegmentMouseDown \<lparr>clientX = 100\<rparr> ''b'' 5 ex_AB))
     = [ex_A, ex_B\<lparr>timelineStart := 0\<rparr>]"
proof -
  have idle: "resizeState ex_AB = None"
    by (simp add: ex_AB_def initialState_def)
  have b: "Segment.id ex_B = ''b''" "timelineStart ex_B = 5" "Segment.id ex_A \<noteq> ''b''"
    by (simp_all add: ex_A_def ex_B_def)
  have "videoSegments (onMouseMove [] [] \<lparr>clientX = x\<rparr>
       (onSegmentMouseDown \<lparr>clientX = 100\<rparr> ''b'' 5 ex_AB))
     = [ex_A, ex_B\<lparr>timelineStart := max 0 (5 + (x - 100) / 80)\<rparr>]" for x
    using drag_sets_timelineStart
      [where seg = ex_B and ?st0.0 = ex_AB and ?e0.0 = "\<lparr>clientX = 100\<rparr>"
         and e = "\<lparr>clientX = x\<rparr>" and vAssets = "[]" and aAssets = "[]",
       OF refl refl refl] idle
    by (simp add: b ex_AB_def)
  from this [of 260] this [of "- 700"] idle show ?thesis
    by (simp add: installed_onMouseMove_def initialState_def)
qed

subsection \<open>Resize writes two fields of one segment\<close>

text \<open>
  \<^bold>\<open>C4\<close>. A resize write keeps the length of both stores and, at every position of either
  store, the \<open>timelineStart\<close>, the \<open>id\<close> and the \<open>assetId\<close> of the segment; a segment whose id
  is not the gesture's is left as it was.
\<close>

theorem resize_leaves_timelineStart:
  assumes "resizeState st = Some rs" and "st' = onResize vAssets aAssets e st"
  shows "length (videoSegments st') = length (videoSegments st) \<and>
         length (audioSegments st') = length (audioSegments st) \<and>
         (\<forall>i < length (videoSegments st).
            timelineStart (videoSegments st' ! i) = timelineStart (videoSegments st ! i) \<and>
            Segment.id (videoSegments st' ! i) = Segment.id (videoSegments st ! i) \<and>
            assetId (videoSegments st' ! i) = assetId (videoSegments st ! i) \<and>
            (Some (Segment.id (videoSegments st ! i)) \<noteq> ResizeState.id rs \<longrightarrow>
               videoSegments st' ! i = videoSegments st ! i)) \<and>
         (\<forall>i < length (audioSegments st).
            timelineStart (audioSegments st' ! i) = timelineStart (audioSegments st ! i) \<and>
            Segment.id (audioSegments st' ! i) = Segment.id (audioSegments st ! i) \<and>
            assetId (audioSegments st' ! i) = assetId (audioSegments st ! i) \<and>
            (Some (Segment.id (audioSegments st ! i)) \<noteq> ResizeState.id rs \<longrightarrow>
               audioSegments st' ! i = audioSegments st ! i))"
  using assms
  by (simp add: onResize_def Let_def resizeSegment_id resizeSegment_assetId
      resizeSegment_timelineStart resizeSegment_other)

theorem resize_leaves_timelineStart_witness:
  "resizeState (onHandleMouseDown \<lparr>clientX = 0\<rparr> Right ex_B ex_AB)
     = Some \<lparr>ResizeState.id = Some ''b'', edge = Right, initialX = 0, initialSourceStart = 6,
             initialDuration = 2\<rparr> \<and>
   videoSegments (onHandleMouseDown \<lparr>clientX = 0\<rparr> Right ex_B ex_AB) = [ex_A, ex_B] \<and>
   videoSegments (installed_onResize \<lparr>clientX = 80\<rparr>
       (onHandleMouseDown \<lparr>clientX = 0\<rparr> Right ex_B ex_AB))
     = [ex_A, ex_B\<lparr>duration := 3\<rparr>] \<and>
   timelineStart (videoSegments (installed_onResize \<lparr>clientX = 80\<rparr>
       (onHandleMouseDown \<lparr>clientX = 0\<rparr> Right ex_B ex_AB)) ! 1) = timelineStart ex_B \<and>
   videoSegments (installed_onResize \<lparr>clientX = 80\<rparr>
       (onHandleMouseDown \<lparr>clientX = 0\<rparr> Right ex_B ex_AB)) ! 0 = ex_A"
proof -
  let ?st = "onHandleMouseDown \<lparr>clientX = 0\<rparr> Right ex_B ex_AB"
  let ?rs = "\<lparr>ResizeState.id = Some ''b'', edge = Right, initialX = 0, initialSourceStart = 6,
             initialDuration = 2\<rparr>"
  have rs: "resizeState ?st = Some ?rs"
    by (simp add: onHandleMouseDown_def ex_B_def)
  have segs: "videoSegments ?st = [ex_A, ex_B]"
    by (simp add: onHandleMouseDown_def ex_AB_def)
  have after: "videoSegments (installed_onResize \<lparr>clientX = 80\<rparr> ?st)
     = [ex_A, ex_B\<lparr>duration := 3\<rparr>]"
    by (simp add: installed_onResize_def onResize_def onHandleMouseDown_def ex_AB_def
        initialState_def resizeSegment_def ex_A_def ex_B_def PIXELS_PER_SECOND_def)
  have other: "Some (Segment.id ex_A) \<noteq> ResizeState.id ?rs"
    by (simp add: ex_A_def)
  from resize_leaves_timelineStart
         [OF rs installed_onResize_finds_no_asset [of "\<lparr>clientX = 80\<rparr>" ?st]]
  have "timelineStart (videoSegments (installed_onResize \<lparr>clientX = 80\<rparr> ?st) ! 1)
          = timelineStart ex_B \<and>
        videoSegments (installed_onResize \<lparr>clientX = 80\<rparr> ?st) ! 0 = ex_A"
    using other by (simp add: segs)
  with rs segs after show ?thesis by simp
qed

subsection \<open>Adding and deleting\<close>

lemma find_append_fresh:
  "\<forall>x \<in> set xs. \<not> P x \<Longrightarrow> P y \<Longrightarrow> find P (xs @ y # ys) = Some y"
  by (induction xs) auto

text \<open>
  \<^bold>\<open>C5\<close>. \<^verbatim>\<open>+ Timeline\<close> on either track puts one new segment, with the new id and the asset's
  id, after the segments the store had, and makes its id the selected id of the track. The
  segment that the render then derives as the selected one is the new segment, provided
  that no segment of the store already had the new id.
\<close>

theorem add_appends_and_selects:
  "(\<exists>seg. Segment.id seg = newId \<and> assetId seg = Asset.id asset \<and>
      videoSegments (addVideoToTimeline newId asset st) = videoSegments st @ [seg] \<and>
      selectedVideoSegmentId (addVideoToTimeline newId asset st) = Some (Segment.id seg) \<and>
      (newId \<notin> Segment.id ` set (videoSegments st) \<longrightarrow>
         selectedVideoSegment (addVideoToTimeline newId asset st) = Some seg)) \<and>
   (\<exists>seg. Segment.id seg = newId \<and> assetId seg = Asset.id asset \<and>
      audioSegments (addAudioToTimeline newId asset st) = audioSegments st @ [seg] \<and>
      selectedAudioSegmentId (addAudioToTimeline newId asset st) = Some (Segment.id seg) \<and>
      (newId \<notin> Segment.id ` set (audioSegments st) \<longrightarrow>
         selectedAudioSegment (addAudioToTimeline newId asset st) = Some seg))"
proof -
  let ?seg = "\<lparr>Segment.id = newId, assetId = Asset.id asset, sourceStart = 0,
      duration = (case Asset.duration asset of None \<Rightarrow> 10 | Some d \<Rightarrow> d), timelineStart = 0\<rparr>"
  have fresh: "find (\<lambda>s. Some (Segment.id s) = Some newId) (segs @ [?seg]) = Some ?seg"
    if "newId \<notin> Segment.id ` set segs" for segs
    using that by (intro find_append_fresh) auto
  have v: "videoSegments (addVideoToTimeline newId asset st) = videoSegments st @ [?seg]"
    and vs: "selectedVideoSegmentId (addVideoToTimeline newId asset st) = Some newId"
    and a: "audioSegments (addAudioToTimeline newId asset st) = audioSegments st @ [?seg]"
    and as: "selectedAudioSegmentId (addAudioToTimeline newId asset st) = Some newId"
    by (simp_all add: addVideoToTimeline_def addAudioToTimeline_def Let_def)
  have "Segment.id ?seg = newId \<and> assetId ?seg = Asset.id asset \<and>
      videoSegments (addVideoToTimeline newId asset st) = videoSegments st @ [?seg] \<and>
      selectedVideoSegmentId (addVideoToTimeline newId asset st) = Some (Segment.id ?seg) \<and>
      (newId \<notin> Segment.id ` set (videoSegments st) \<longrightarrow>
         selectedVideoSegment (addVideoToTimeline newId asset st) = Some ?seg)"
    using fresh [of "videoSegments st"] by (simp add: selectedVideoSegment_def v vs)
  moreover have "Segment.id ?seg = newId \<and> assetId ?seg = Asset.id asset \<and>
      audioSegments (addAudioToTimeline newId asset st) = audioSegments st @ [?seg] \<and>
      selectedAudioSegmentId (addAudioToTimeline newId asset st) = Some (Segment.id ?seg) \<and>
      (newId \<notin> Segment.id ` set (audioSegments st) \<longrightarrow>
         selectedAudioSegment (addAudioToTimeline newId asset st) = Some ?seg)"
    using fresh [of "audioSegments st"] by (simp add: selectedAudioSegment_def a as)
  ultimately show ?thesis by blast
qed

theorem add_appends_and_selects_witness:
  "''s2'' \<notin> Segment.id ` set (videoSegments ex_added) \<and>
   butlast (videoSegments (addVideoToTimeline ''s2'' ex_pending ex_added))
     = videoSegments ex_added \<and>
   selectedVideoSegment (addVideoToTimeline ''s2'' ex_pending ex_added)
     = Some (last (videoSegments (addVideoToTimeline ''s2'' ex_pending ex_added))) \<and>
   Segment.id (last (videoSegments (addVideoToTimeline ''s2'' ex_pending ex_added))) = ''s2''"
proof -
  have fresh: "''s2'' \<notin> Segment.id ` set (videoSegments ex_added)"
    by (simp add: ex_defs)
  from add_appends_and_selects [of "''s2''" ex_pending ex_added]
  obtain seg where "Segment.id seg = ''s2''"
    and "videoSegments (addVideoToTimeline ''s2'' ex_pending ex_added)
           = videoSegments ex_added @ [seg]"
    and "''s2'' \<notin> Segment.id ` set (videoSegments ex_added) \<longrightarrow>
         selectedVideoSegment (addVideoToTimeline ''s2'' ex_pending ex_added) = Some seg"
    by blast
  with fresh show ?thesis by simp
qed

text \<open>
  \<^bold>\<open>C6\<close>. Deleting the id \<open>i\<close> on either track keeps exactly the segments whose id is not \<open>i\<close>,
  in their order, so no segment with the id \<open>i\<close> is left; the selected id of the track becomes
  null when it was \<open>i\<close> and is untouched when it was not.
\<close>

theorem delete_clears_own_selection:
  "videoSegments (deleteVideoSegment i st)
     = filter (\<lambda>s. Segment.id s \<noteq> i) (videoSegments st) \<and>
   i \<notin> Segment.id ` set (videoSegments (deleteVideoSegment i st)) \<and>
   (selectedVideoSegmentId st = Some i \<longrightarrow>
      selectedVideoSegmentId (deleteVideoSegment i st) = None) \<and>
   (selectedVideoSegmentId st \<noteq> Some i \<longrightarrow>
      selectedVideoSegmentId (deleteVideoSegment i st) = selectedVideoSegmentId st) \<and>
   audioSegments (deleteAudioSegment i st)
     = filter (\<lambda>s. Segment.id s \<noteq> i) (audioSegments st) \<and>
   i \<notin> Segment.id ` set (audioSegments (deleteAudioSegment i st)) \<and>
   (selectedAudioSegmentId st = Some i \<longrightarrow>
      selectedAudioSegmentId (deleteAudioSegment i st) = None) \<and>
   (selectedAudioSegmentId st \<noteq> Some i \<longrightarrow>
      selectedAudioSegmentId (deleteAudioSegment i st) = selectedAudioSegmentId st)"
  by (auto simp add: deleteVideoSegment_def deleteAudioSegment_def Let_def)

theorem delete_clears_own_selection_witness:
  "selectedVideoSegmentId (addVideoToTimeline ''s2'' ex_pending ex_added) = Some ''s2'' \<and>
   selectedVideoSegmentId
     (deleteVideoSegment ''s2'' (addVideoToTimeline ''s2'' ex_pending ex_added)) = None \<and>
   selectedVideoSegmentId (addVideoToTimeline ''s2'' ex_pending ex_added) \<noteq> Some ''s1'' \<and>
   selectedVideoSegmentId
     (deleteVideoSegment ''s1'' (addVideoToTimeline ''s2'' ex_pending ex_added)) = Some ''s2'' \<and>
   videoSegments (deleteVideoSegment ''s2'' (addVideoToTimeline ''s2'' ex_pending ex_added))
     = [ex_seg]"
proof -
  let ?st = "addVideoToTimeline ''s2'' ex_pending ex_added"
  have sel: "selectedVideoSegmentId ?st = Some ''s2''"
    by (simp add: addVideoToTimeline_def Let_def)
  have segs: "videoSegments ?st
      = [ex_seg, \<lparr>Segment.id = ''s2'', assetId = ''v2'', sourceStart = 0, duration = 10,
                  timelineStart = 0\<rparr>]"
    by (simp add: ex_defs ex_pending_def)
  from delete_clears_own_selection [of "''s2''" ?st] delete_clears_own_selection [of "''s1''" ?st]
  show ?thesis
    by (simp add: sel segs ex_seg_def)
qed

text \<open>
  \<^bold>\<open>C10\<close>. The segment that \<^verbatim>\<open>+ Timeline\<close> creates on either track starts at 0 in the source
  and at 0 on the time line; it lasts 10 seconds while the asset's duration is not known,
  and as long as the asset once it is.
\<close>

theorem add_default_fields:
  "(Asset.duration asset = None \<longrightarrow>
      last (videoSegments (addVideoToTimeline newId asset st))
        = \<lparr>Segment.id = newId, assetId = Asset.id asset, sourceStart = 0, duration = 10,
           timelineStart = 0\<rparr> \<and>
      last (audioSegments (addAudioToTimeline newId asset st))
        = \<lparr>Segment.id = newId, assetId = Asset.id asset, sourceStart = 0, duration = 10,
           timelineStart = 0\<rparr>) \<and>
   (\<forall>d. Asset.duration asset = Some d \<longrightarrow>
      last (videoSegments (addVideoToTimeline newId asset st))
        = \<lparr>Segment.id = newId, assetId = Asset.id asset, sourceStart = 0, duration = d,
           timelineStart = 0\<rparr> \<and>
      last (audioSegments (addAudioToTimeline newId asset st))
        = \<lparr>Segment.id = newId, assetId = Asset.id asset, sourceStart = 0, duration = d,
           timelineStart = 0\<rparr>)"
  by (simp add: addVideoToTimeline_def addAudioToTimeline_def Let_def)

theorem add_default_fields_witness:
  "Asset.duration ex_pending = None \<and>
   last (videoSegments (addVideoToTimeline ''s2'' ex_pending ex_added))
     = \<lparr>Segment.id = ''s2'', assetId = ''v2'', sourceStart = 0, duration = 10,
        timelineStart = 0\<rparr> \<and>
   Asset.duration ex_asset = Some 12 \<and>
   last (audioSegments (addAudioToTimeline ''s3'' ex_asset ex_added))
     = \<lparr>Segment.id = ''s3'', assetId = ''v1'', sourceStart = 0, duration = 12,
        timelineStart = 0\<rparr>"
proof -
  have pending: "Asset.duration ex_pending = None" and known: "Asset.duration ex_asset = Some 12"
    by (simp_all add: ex_pending_def ex_asset_def)
  from add_default_fields [of ex_pending "''s2''" ex_added]
       add_default_fields [of ex_asset "''s3''" ex_added]
  show ?thesis
    by (simp add: pending known) (simp add: ex_pending_def ex_asset_def)
qed

subsection \<open>AutoCut\<close>

text \<open>
  \<^bold>\<open>C7\<close>. AutoCut for an asset puts three segments of that asset after the segments the video
  store had: they start at 2, 6 and 9 in the source, last 2, 1 and 1 seconds, and all start
  at 0 on the time line. The selected id becomes the id of the first of them, and the
  selected segment that the render derives is that first one, provided that no segment of
  the store already had its id.
\<close>

theorem autoCut_three_segments:
  "videoSegments (handleAutoCutForAsset createId asset st)
     = videoSegments st @
       [\<lparr>Segment.id = createId 0, assetId = Asset.id asset, sourceStart = 2, duration = 2,
         timelineStart = 0\<rparr>,
        \<lparr>Segment.id = createId 1, assetId = Asset.id asset, sourceStart = 6, duration = 1,
         timelineStart = 0\<rparr>,
        \<lparr>Segment.id = createId 2, assetId = Asset.id asset, sourceStart = 9, duration = 1,
         timelineStart = 0\<rparr>] \<and>
   selectedVideoSegmentId (handleAutoCutForAsset createId asset st) = Some (createId 0) \<and>
   (createId 0 \<notin> Segment.id ` set (videoSegments st) \<longrightarrow>
      selectedVideoSegment (handleAutoCutForAsset createId asset st)
        = Some \<lparr>Segment.id = createId 0, assetId = Asset.id asset, sourceStart = 2,
                duration = 2, timelineStart = 0\<rparr>)"
proof -
  have segs: "mapHighlights createId 0 asset HIGHLIGHTS =
       [\<lparr>Segment.id = createId 0, assetId = Asset.id asset, sourceStart = 2, duration = 2,
         timelineStart = 0\<rparr>,
        \<lparr>Segment.id = createId 1, assetId = Asset.id asset, sourceStart = 6, duration = 1,
         timelineStart = 0\<rparr>,
        \<lparr>Segment.id = createId 2, assetId = Asset.id asset, sourceStart = 9, duration = 1,
         timelineStart = 0\<rparr>]"
    by (simp add: HIGHLIGHTS_def numeral_2_eq_2)
  have st': "handleAutoCutForAsset createId asset st =
      st\<lparr>videoSegments := videoSegments st @ mapHighlights createId 0 asset HIGHLIGHTS,
         selectedVideoSegmentId := Some (createId 0)\<rparr>"
    by (simp add: handleAutoCutForAsset_def autoCutForAsset_def segs)
  have "selectedVideoSegment (handleAutoCutForAsset createId asset st)
        = Some \<lparr>Segment.id = createId 0, assetId = Asset.id asset, sourceStart = 2,
                duration = 2, timelineStart = 0\<rparr>"
    if "createId 0 \<notin> Segment.id ` set (videoSegments st)"
  proof -
    from that
    have "\<forall>x \<in> set (videoSegments st). \<not> Some (Segment.id x) = Some (createId 0)"
      by force
    then show ?thesis
      by (simp add: selectedVideoSegment_def st' segs find_append_fresh)
  qed
  then show ?thesis
    by (simp add: st' segs)
qed

theorem autoCut_three_segments_witness:
  "ex_createId 0 \<notin> Segment.id ` set (videoSegments ex_added) \<and>
   length (videoSegments (handleAutoCutForAsset ex_createId ex_asset ex_added)) = 4 \<and>
   selectedVideoSegment (handleAutoCutForAsset ex_createId ex_asset ex_added)
     = Some \<lparr>Segment.id = ''h0'', assetId = ''v1'', sourceStart = 2, duration = 2,
             timelineStart = 0\<rparr>"
proof -
  have fresh: "ex_createId 0 \<notin> Segment.id ` set (videoSegments ex_added)"
    by (simp add: ex_createId_def ex_defs)
  have len: "length (videoSegments ex_added) = 1"
    by (simp add: ex_defs)
  from autoCut_three_segments [of ex_createId ex_asset ex_added] fresh len
  show ?thesis
    by (simp add: ex_createId_def ex_asset_def)
qed

text \<open>The bulk handler makes the same three segments for every asset of the registry.\<close>

lemma autoCutAll_one_asset:
  "videoAssets st = [asset] \<Longrightarrow>
   handleAutoCutAll createId st = handleAutoCutForAsset createId asset st"
  by (simp add: handleAutoCutAll_def autoCutAll_def handleAutoCutForAsset_def
      autoCutForAsset_def)

lemma forEachAsset_no_highlights: "forEachAsset createId n assets [] = []"
  by (induction assets arbitrary: n) simp_all

text \<open>
  \<^bold>\<open>C8\<close>. The highlight list is a local constant of the two handlers; their bodies, read as
  functions of it, return the state they were given when the list is empty: no segment is
  made, the store and the selection are as they were.
\<close>

theorem autoCut_empty_ranges:
  "autoCutForAsset [] createId asset st = st \<and> autoCutAll [] createId st = st"
  by (simp add: autoCutForAsset_def autoCutAll_def forEachAsset_no_highlights)

subsection \<open>Playback\<close>

lemmas play_defs = ex_asset_def ex_A_def ex_B_def ex_AB_def ex_AB_history_def initialState_def
  sourceStartPatch_def durationPatch_def timelineStartPatch_def
  addVideoToTimeline_def deleteVideoSegment_def updateVideoSegment_def applyPatch_def
  commitVideoRef_def selectedVideoAsset_def selectedVideoSegment_def
  togglePlayback_def onTimeUpdate_def timeupdate_def getNextVideoSegment_def
  sortedByTimelineStart_def at_index_def onVideoSegmentClick_def seekAndPlay_def

lemma find_never: "find (\<lambda>x. False) xs = None"
  by (induction xs) simp_all

text \<open>While nothing is selected the preview element is not rendered, and without the
  element \<^verbatim>\<open>togglePlayback\<close> returns at its first line.\<close>

lemma commitVideoRef_unselected:
  "selectedVideoSegmentId st = None \<Longrightarrow> videoRef (commitVideoRef st) = None"
  by (simp add: commitVideoRef_def selectedVideoAsset_def selectedVideoSegment_def find_never)

lemma togglePlayback_without_element: "videoRef st = None \<Longrightarrow> togglePlayback st = st"
  by (simp add: togglePlayback_def)

lemma togglePlayback_unselected:
  "selectedVideoSegmentId st = None \<Longrightarrow>
   togglePlayback (commitVideoRef st) = commitVideoRef st"
  by (simp add: togglePlayback_without_element commitVideoRef_unselected)

lemma toggleAudioPlayback_unselected:
  "selectedAudioSegmentId st = None \<Longrightarrow>
   toggleAudioPlayback (commitAudioRef st) = commitAudioRef st"
  by (simp add: toggleAudioPlayback_def commitAudioRef_def selectedAudioAsset_def
      selectedAudioSegment_def find_never)

lemma ex_AB_reachable: "ex_AB_history = ex_AB"
  by (simp add: play_defs)

text \<open>
  \<^bold>\<open>C9\<close>. The state of the scenario: the video track holds \<open>A\<close> and \<open>B\<close>, nothing is selected,
  playback is stopped. Rendered, it has no preview element, and \<^verbatim>\<open>togglePlayback\<close> leaves it
  as it is: nothing is selected afterwards and playback is still stopped. The branch of
  lines 326-331, which would select \<open>A\<close>, is behind the return of line 320.
\<close>

theorem togglePlayback_unselected_noop:
  "selectedVideoSegmentId (commitVideoRef ex_AB) = None \<and>
   isPlaying (commitVideoRef ex_AB) = False \<and>
   videoSegments (commitVideoRef ex_AB) = [ex_A, ex_B] \<and>
   videoRef (commitVideoRef ex_AB) = None \<and>
   togglePlayback (commitVideoRef ex_AB) = commitVideoRef ex_AB \<and>
   selectedVideoSegmentId (togglePlayback (commitVideoRef ex_AB)) = None \<and>
   isPlaying (togglePlayback (commitVideoRef ex_AB)) = False"
  by (simp add: play_defs)

text \<open>With an element at hand the three steps of the scenario are what the handlers do:
  \<^verbatim>\<open>togglePlayback\<close> selects \<open>A\<close> and starts; a position at or after the end of \<open>A\<close> selects
  \<open>B\<close>; a position at or after the end of \<open>B\<close> stops and pauses the element.\<close>

lemma playback_chain_with_element:
  assumes "videoSegments st = [A, B]"
    and "timelineStart A = 0" and "Segment.duration A = 3"
    and "timelineStart B = 5" and "Segment.duration B = 2"
    and "Segment.id A \<noteq> Segment.id B"
    and "selectedVideoSegmentId st = None" and "\<not> isPlaying st"
    and "videoRef st = Some v"
    and "p \<ge> sourceStart A + 3" and "q \<ge> sourceStart B + 2"
  shows "togglePlayback st = st\<lparr>selectedVideoSegmentId := Some (Segment.id A), isPlaying := True\<rparr>"
    and "timeupdate p (togglePlayback st)
           = st\<lparr>selectedVideoSegmentId := Some (Segment.id B), isPlaying := True,
                videoRef := Some (v\<lparr>currentTime := p\<rparr>)\<rparr>"
    and "timeupdate q (timeupdate p (togglePlayback st))
           = st\<lparr>selectedVideoSegmentId := Some (Segment.id B), isPlaying := False,
                videoRef := Some (v\<lparr>currentTime := q, paused := True\<rparr>)\<rparr>"
proof -
  have sorted: "sortedByTimelineStart [A, B] = [A, B]"
    using assms(2,4) by (simp add: sortedByTimelineStart_def)
  show 1: "togglePlayback st
      = st\<lparr>selectedVideoSegmentId := Some (Segment.id A), isPlaying := True\<rparr>"
    using assms(1,7,8,9)
    by (simp add: togglePlayback_def selectedVideoSegment_def find_never sorted Let_def)
  have nextA: "getNextVideoSegment
      (st\<lparr>selectedVideoSegmentId := Some (Segment.id A), isPlaying := True,
          videoRef := Some (v\<lparr>currentTime := p\<rparr>)\<rparr>) = Some B"
    using assms(1,6)
    by (simp add: getNextVideoSegment_def selectedVideoSegment_def sorted at_index_def)
  show 2: "timeupdate p (togglePlayback st)
           = st\<lparr>selectedVideoSegmentId := Some (Segment.id B), isPlaying := True,
                videoRef := Some (v\<lparr>currentTime := p\<rparr>)\<rparr>"
    unfolding 1 using assms(1,3,9,10) nextA
    by (simp add: timeupdate_def onTimeUpdate_def selectedVideoSegment_def)
  have nextB: "getNextVideoSegment
      (st\<lparr>selectedVideoSegmentId := Some (Segment.id B), isPlaying := True,
          videoRef := Some (v\<lparr>currentTime := q\<rparr>)\<rparr>) = None"
    using assms(1,6)
    by (simp add: getNextVideoSegment_def selectedVideoSegment_def sorted at_index_def)
  show "timeupdate q (timeupdate p (togglePlayback st))
           = st\<lparr>selectedVideoSegmentId := Some (Segment.id B), isPlaying := False,
                videoRef := Some (v\<lparr>currentTime := q, paused := True\<rparr>)\<rparr>"
    unfolding 2 using assms(1,5,6,11) nextB
    by (simp add: timeupdate_def onTimeUpdate_def selectedVideoSegment_def)
qed

text \<open>In the component the element exists once a segment is selected: after a click on \<open>A\<close>
  the same session plays \<open>A\<close>, goes on to \<open>B\<close> and stops.\<close>

lemma playback_after_click:
  "videoRef (commitVideoRef (onVideoSegmentClick ex_A ex_AB))
     = Some \<lparr>currentTime = 0, paused = True\<rparr> \<and>
   (seekAndPlay \<circ> commitVideoRef \<circ> togglePlayback \<circ> commitVideoRef \<circ> onVideoSegmentClick ex_A)
     ex_AB
     = ex_AB\<lparr>selectedVideoSegmentId := Some ''a'', isPlaying := True,
             videoRef := Some \<lparr>currentTime = 1, paused = False\<rparr>\<rparr> \<and>
   (seekAndPlay \<circ> commitVideoRef \<circ> timeupdate 4)
     (ex_AB\<lparr>selectedVideoSegmentId := Some ''a'', isPlaying := True,
            videoRef := Some \<lparr>currentTime = 1, paused = False\<rparr>\<rparr>)
     = ex_AB\<lparr>selectedVideoSegmentId := Some ''b'', isPlaying := True,
             videoRef := Some \<lparr>currentTime = 6, paused = False\<rparr>\<rparr> \<and>
   (commitVideoRef \<circ> timeupdate 8)
     (ex_AB\<lparr>selectedVideoSegmentId := Some ''b'', isPlaying := True,
            videoRef := Some \<lparr>currentTime = 6, paused = False\<rparr>\<rparr>)
     = ex_AB\<lparr>selectedVideoSegmentId := Some ''b'', isPlaying := False,
             videoRef := Some \<lparr>currentTime = 8, paused = True\<rparr>\<rparr>"
  by (simp add: play_defs)

end
